theory Spec2Isabelle
  imports Complex_Main "HOL-Library.Sublist"
begin

section \<open>Python strings\<close>

text \<open>
  A Python \<open>str\<close> is a sequence of Unicode code points and \<open>len\<close> counts code points,
  so a string is modelled as a list of code points (natural numbers). String literals of
  the source are written through \<open>lit\<close>, which maps an ASCII literal to its code points.
\<close>

type_synonym pychar = nat
type_synonym pystr = "pychar list"

definition lit :: "string \<Rightarrow> pystr" where
  "lit s = map of_char s"

abbreviation NL :: pychar where
  "NL \<equiv> 10"

text \<open>\<open>str(n)\<close> for a non-negative integer: its decimal digits.\<close>

fun str_nat :: "nat \<Rightarrow> pystr" where
  "str_nat n = (if n < 10 then [48 + n] else str_nat (n div 10) @ [48 + n mod 10])"

declare str_nat.simps [simp del]

text \<open>
  \<open>str.isspace\<close> for one character, which is what \<open>str.strip()\<close> without an argument
  removes: the code points that CPython classifies as whitespace.
\<close>

definition is_space :: "pychar \<Rightarrow> bool" where
  "is_space c \<longleftrightarrow>
     (9 \<le> c \<and> c \<le> 13) \<or> (28 \<le> c \<and> c \<le> 32) \<or> c = 133 \<or> c = 160 \<or> c = 5760 \<or>
     (8192 \<le> c \<and> c \<le> 8202) \<or> c = 8232 \<or> c = 8233 \<or> c = 8239 \<or> c = 8287 \<or> c = 12288"

definition py_strip :: "pystr \<Rightarrow> pystr" where
  "py_strip s = rev (dropWhile is_space (rev (dropWhile is_space s)))"

text \<open>
  \<open>s.replace(old, new)\<close>: the occurrences of \<open>old\<close> are found scanning from the left and
  do not overlap. For an empty \<open>old\<close> Python puts \<open>new\<close> before every character and at
  the end.
\<close>

function py_replace :: "pystr \<Rightarrow> pystr \<Rightarrow> pystr \<Rightarrow> pystr" where
  "py_replace old new s =
     (if old = [] then new @ concat (map (\<lambda>c. c # new) s)
      else if s = [] then []
      else if prefix old s then new @ py_replace old new (drop (length old) s)
      else hd s # py_replace old new (tl s))"
  by pat_completeness auto
termination
  by (relation "measure (\<lambda>(old, new, s). length s)") auto

declare py_replace.simps [simp del]

text \<open>\<open>needle in hay\<close> for strings is the contiguous-substring test \<^const>\<open>sublist\<close>.\<close>

section \<open>The content store\<close>

text \<open>
  The content store is the file system as the loader sees it: a path either does not exist
  or names an entry with a byte size (\<open>os.path.getsize\<close>) and a text. The text is what
  reading the whole entry in text mode with UTF-8 decoding yields (line ends already
  translated to \<open>\n\<close>), or \<open>None\<close> when opening or decoding raises \<open>IOError\<close> or
  \<open>UnicodeDecodeError\<close>. Both reads of the source (\<open>readline\<close>, then \<open>read\<close> after
  \<open>seek(0)\<close>) sit in the same \<open>try\<close> block and either failure leads to \<open>continue\<close>, so an
  entry that fails at any point behaves as one whose text is \<open>None\<close>.
\<close>

record stored_file =
  fsize :: int
  ftext :: "pystr option"

type_synonym store = "pystr \<rightharpoonup> stored_file"

text \<open>\<open>f.readline()\<close> at the start of the file: up to and including the first newline.\<close>

definition readline :: "pystr \<Rightarrow> pystr" where
  "readline t = (if NL \<in> set t then takeWhile (\<lambda>c. c \<noteq> NL) t @ [NL] else t)"

text \<open>\<open>os.path.join(a, b)\<close> with the POSIX separator.\<close>

definition os_path_join :: "pystr \<Rightarrow> pystr \<Rightarrow> pystr" where
  "os_path_join a b =
     (if prefix (lit ''/'') b then b
      else if a = [] \<or> suffix (lit ''/'') a then a @ b
      else a @ lit ''/'' @ b)"

definition file_path :: "pystr \<Rightarrow> pystr \<Rightarrow> nat \<Rightarrow> pystr" where
  "file_path spiqa_path arxiv_id version =
     os_path_join spiqa_path (arxiv_id @ lit ''v'' @ str_nat version @ lit ''.txt'')"

text \<open>The marker \<open>\section\<close> that the first line is searched for.\<close>

definition section_marker :: pystr where
  "section_marker = 92 # lit ''section''"

section \<open>Configuration\<close>

text \<open>
  The configuration is the dictionary loaded from YAML, with the keys the two classes read.
  The provider-specific keys of the \<open>llm\<close> section may be absent (\<open>None\<close>): reading an
  absent key with \<open>[...]\<close> raises \<open>KeyError\<close>, reading it with \<open>.get\<close> yields \<open>None\<close>.
  The two delays are YAML numbers: a Python \<open>int\<close> or a finite \<open>float\<close>. The record
  holds the value of each as a real and its kind as a flag (true for a \<open>float\<close>), since
  the kind decides where Python's arithmetic raises \<open>OverflowError\<close>.
\<close>

record llm_config =
  provider :: pystr
  model :: pystr
  temperature :: real
  max_tokens :: int
  api_key :: "pystr option"
  api_base :: "pystr option"
  api_version :: "pystr option"
  project_id :: "pystr option"
  region :: "pystr option"

record processing_config =
  min_file_size :: int
  max_file_size :: int
  max_content_length :: int
  max_retries :: int
  base_delay :: real
  base_delay_is_float :: bool
  max_delay :: real
  max_delay_is_float :: bool

record config =
  llm :: llm_config
  data_spiqa_path :: pystr
  processing :: processing_config

section \<open>DataLoader\<close>

text \<open>
  The body of the version loop of \<open>_load_single_paper\<close> for one version number:
  \<open>None\<close> stands for \<open>continue\<close>, \<open>Some content\<close> for \<open>return content\<close>.
\<close>

definition size_rejected :: "int \<Rightarrow> int \<Rightarrow> int \<Rightarrow> bool" where
  "size_rejected min_size max_size file_size \<longleftrightarrow> file_size < min_size \<or> file_size > max_size"

definition try_version :: "store \<Rightarrow> pystr \<Rightarrow> pystr \<Rightarrow> int \<Rightarrow> int \<Rightarrow> nat \<Rightarrow> pystr option" where
  "try_version st arxiv_id spiqa_path min_size max_size version =
     (case st (file_path spiqa_path arxiv_id version) of
        None \<Rightarrow> None
      | Some f \<Rightarrow>
          if size_rejected min_size max_size (fsize f) then None
          else (case ftext f of
                  None \<Rightarrow> None
                | Some t \<Rightarrow>
                    let first_line = py_strip (readline t) in
                    if sublist section_marker first_line then None
                    else Some (py_replace [NL, NL] [NL] t)))"

fun load_versions :: "store \<Rightarrow> pystr \<Rightarrow> pystr \<Rightarrow> int \<Rightarrow> int \<Rightarrow> nat list \<Rightarrow> pystr option" where
  "load_versions st arxiv_id spiqa_path min_size max_size [] = None"
| "load_versions st arxiv_id spiqa_path min_size max_size (version # rest) =
     (case try_version st arxiv_id spiqa_path min_size max_size version of
        Some content \<Rightarrow> Some content
      | None \<Rightarrow> load_versions st arxiv_id spiqa_path min_size max_size rest)"

text \<open>\<open>_load_single_paper\<close>: the loop over \<open>range(1, 15)\<close>.\<close>

definition load_single_paper :: "store \<Rightarrow> pystr \<Rightarrow> pystr \<Rightarrow> int \<Rightarrow> int \<Rightarrow> pystr option" where
  "load_single_paper st arxiv_id spiqa_path min_size max_size =
     load_versions st arxiv_id spiqa_path min_size max_size [1..<15]"

text \<open>The labelled block that \<open>get_paper_content\<close> appends for one accepted paper.\<close>

definition paper_block :: "pystr \<Rightarrow> pystr \<Rightarrow> pystr \<Rightarrow> pystr" where
  "paper_block title arxiv_id content =
     lit ''**title**: '' @ title @ [NL] @ lit ''**arxiv_id**: '' @ arxiv_id @ [NL] @
     lit ''**content**: '' @ content @ [NL, NL]"

text \<open>
  The candidate loop of \<open>get_paper_content\<close> with its two accumulators. \<open>if content:\<close>
  is false for \<open>None\<close> and for the empty string alike.
\<close>

fun collect_papers ::
  "store \<Rightarrow> pystr \<Rightarrow> int \<Rightarrow> int \<Rightarrow> (pystr \<times> pystr) list \<Rightarrow> pystr \<Rightarrow> (pystr \<times> pystr) list
     \<Rightarrow> pystr \<times> (pystr \<times> pystr) list" where
  "collect_papers st spiqa_path min_size max_size [] contents valid_arxiv_ids =
     (contents, valid_arxiv_ids)"
| "collect_papers st spiqa_path min_size max_size ((arxiv_id, title) # rest) contents valid_arxiv_ids =
     (case load_single_paper st arxiv_id spiqa_path min_size max_size of
        None \<Rightarrow> collect_papers st spiqa_path min_size max_size rest contents valid_arxiv_ids
      | Some content \<Rightarrow>
          if content \<noteq> [] then
            collect_papers st spiqa_path min_size max_size rest
              (contents @ paper_block title arxiv_id content) (valid_arxiv_ids @ [(arxiv_id, title)])
          else collect_papers st spiqa_path min_size max_size rest contents valid_arxiv_ids)"

definition get_paper_content ::
  "config \<Rightarrow> store \<Rightarrow> (pystr \<times> pystr) list \<Rightarrow> pystr option \<times> (pystr \<times> pystr) list option" where
  "get_paper_content cfg st arxiv_ids =
     (let spiqa_path = data_spiqa_path cfg;
          min_size = min_file_size (processing cfg) * 1024;
          max_size = max_file_size (processing cfg) * 1024;
          (contents, valid_arxiv_ids) = collect_papers st spiqa_path min_size max_size arxiv_ids [] []
      in if length valid_arxiv_ids \<le> 1 then (None, None)
         else if int (length contents) > max_content_length (processing cfg) then (None, None)
         else (Some contents, Some valid_arxiv_ids))"


section \<open>LLMClient\<close>

text \<open>
  Exceptions are values. \<open>ProviderError\<close> carries whatever the provider SDK raised;
  the other constructors are the Python exceptions that the two classes raise themselves
  or that their own expressions can raise.
\<close>

datatype 'e exn =
    ProviderError 'e
  | ValueError pystr
  | KeyError pystr
  | IndexError
  | OverflowError pystr
  | PyException pystr

text \<open>The SDK client objects that \<open>_initialize_client\<close> builds, with their arguments.\<close>

datatype client =
    OpenAI pystr "pystr option"
  | AzureOpenAI pystr pystr pystr
  | AnthropicVertex pystr pystr

text \<open>
  \<open>str.lower\<close> is a library function over all of Unicode; it is a parameter \<open>lower\<close> of
  the functions that call it, so that every statement holds for the real one.
  \<open>ascii_lower\<close> is its behaviour on ASCII text, used in the examples.
\<close>

definition ascii_lower :: "pystr \<Rightarrow> pystr" where
  "ascii_lower s = map (\<lambda>c. if 65 \<le> c \<and> c \<le> 90 then c + 32 else c) s"

definition initialize_client :: "(pystr \<Rightarrow> pystr) \<Rightarrow> config \<Rightarrow> 'e exn + client" where
  "initialize_client lower cfg =
     (let prov = lower (provider (llm cfg)) in
      if prov = lit ''openai'' then
        (case api_key (llm cfg) of
           None \<Rightarrow> Inl (KeyError (lit ''api_key''))
         | Some k \<Rightarrow> Inr (OpenAI k (api_base (llm cfg))))
      else if prov = lit ''azure_openai'' then
        (case api_key (llm cfg) of
           None \<Rightarrow> Inl (KeyError (lit ''api_key''))
         | Some k \<Rightarrow>
             (case api_base (llm cfg) of
                None \<Rightarrow> Inl (KeyError (lit ''api_base''))
              | Some b \<Rightarrow>
                  (case api_version (llm cfg) of
                     None \<Rightarrow> Inl (KeyError (lit ''api_version''))
                   | Some v \<Rightarrow> Inr (AzureOpenAI k b v))))
      else if prov = lit ''anthropic_vertex'' then
        (case project_id (llm cfg) of
           None \<Rightarrow> Inl (KeyError (lit ''project_id''))
         | Some p \<Rightarrow>
             (case region (llm cfg) of
                None \<Rightarrow> Inl (KeyError (lit ''region''))
              | Some r \<Rightarrow> Inr (AnthropicVertex p r)))
      else Inl (ValueError (lit ''Unsupported provider: '' @ prov)))"

text \<open>
  An \<open>LLMClient\<close> object: its two attributes. \<open>__init__\<close> receives the configuration
  as loaded; an exception of \<open>_initialize_client\<close> leaves no object.
\<close>

record llm_client =
  self_config :: config
  self_client :: client

definition llm_client_init :: "(pystr \<Rightarrow> pystr) \<Rightarrow> config \<Rightarrow> 'e exn + llm_client" where
  "llm_client_init lower cfg =
     (case initialize_client lower cfg of
        Inl e \<Rightarrow> Inl e
      | Inr c \<Rightarrow> Inr \<lparr>self_config = cfg, self_client = c\<rparr>)"

text \<open>
  The two wire calls, with their keyword arguments in the order of the source:
  \<open>chat.completions.create(model, messages, temperature, max_tokens [, response_format])\<close>
  and \<open>messages.create(model, max_tokens, system, messages, temperature)\<close>.
  A message is a (role, content) pair; \<open>response_format\<close> is its \<open>type\<close> when present.
\<close>

datatype request =
    ChatCompletionsCreate pystr "(pystr \<times> pystr) list" real int "pystr option"
  | MessagesCreate pystr int pystr "(pystr \<times> pystr) list" real

text \<open>
  The world outside the client. The provider is an oracle: \<open>backend k c r\<close> is what the
  SDK does on the wire call number \<open>k\<close> (counted from 0) made through client \<open>c\<close> with
  request \<open>r\<close>: it raises (\<open>Inl\<close>) or returns the texts of the response items
  (\<open>choices[i].message.content\<close>, respectively \<open>content[i].text\<close>). \<open>jitter k\<close> is the
  value of the draw number \<open>k\<close> of \<open>random.uniform(0, 1)\<close>. The state records the wire
  calls made, the delays slept and the number of draws; \<open>sleep_limit\<close> is the longest
  delay that \<open>time.sleep\<close> accepts on the platform (it never changes); \<open>dispatch_log\<close> is
  instrumentation: the outcome of every \<open>generate_response\<close> invocation made by
  \<open>generate_with_retry\<close>, in order.
\<close>

type_synonym 'e backend = "nat \<Rightarrow> client \<Rightarrow> request \<Rightarrow> 'e + pystr list"

record 'e world =
  wire_log :: "(client \<times> request) list"
  dispatch_log :: "('e exn + pystr) list"
  slept :: "real list"
  draws :: nat
  sleep_limit :: real

definition wire_call ::
  "'e backend \<Rightarrow> client \<Rightarrow> request \<Rightarrow> 'e world \<Rightarrow> ('e + pystr list) \<times> 'e world" where
  "wire_call backend c r w =
     (backend (length (wire_log w)) c r, w\<lparr>wire_log := wire_log w @ [(c, r)]\<rparr>)"

text \<open>Item \<open>[0]\<close> of the response list; an empty list raises \<open>IndexError\<close>.\<close>

definition first_item :: "'e + pystr list \<Rightarrow> 'e exn + pystr" where
  "first_item resp =
     (case resp of
        Inl e \<Rightarrow> Inl (ProviderError e)
      | Inr items \<Rightarrow> (case items of [] \<Rightarrow> Inl IndexError | x # _ \<Rightarrow> Inr x))"

definition generate_openai_response ::
  "'e backend \<Rightarrow> llm_client \<Rightarrow> pystr \<Rightarrow> pystr \<Rightarrow> bool \<Rightarrow> 'e world \<Rightarrow> ('e exn + pystr) \<times> 'e world" where
  "generate_openai_response backend self system_prompt user_prompt use_json_format w =
     (let messages = [(lit ''system'', system_prompt), (lit ''user'', user_prompt)];
          kwargs = ChatCompletionsCreate (model (llm (self_config self))) messages
                     (temperature (llm (self_config self))) (max_tokens (llm (self_config self)))
                     (if use_json_format then Some (lit ''json_object'') else None);
          (response, w1) = wire_call backend (self_client self) kwargs w
      in (first_item response, w1))"

definition generate_anthropic_response ::
  "'e backend \<Rightarrow> llm_client \<Rightarrow> pystr \<Rightarrow> pystr \<Rightarrow> 'e world \<Rightarrow> ('e exn + pystr) \<times> 'e world" where
  "generate_anthropic_response backend self system_prompt user_prompt w =
     (let (response, w1) =
            wire_call backend (self_client self)
              (MessagesCreate (model (llm (self_config self))) (max_tokens (llm (self_config self)))
                 system_prompt [(lit ''user'', user_prompt)] (temperature (llm (self_config self)))) w
      in (first_item response, w1))"

definition generate_response ::
  "(pystr \<Rightarrow> pystr) \<Rightarrow> 'e backend \<Rightarrow> llm_client \<Rightarrow> pystr \<Rightarrow> pystr \<Rightarrow> bool \<Rightarrow> 'e world
     \<Rightarrow> ('e exn + pystr) \<times> 'e world" where
  "generate_response lower backend self system_prompt user_prompt use_json_format w =
     (let prov = lower (provider (llm (self_config self))) in
      if prov \<in> set [lit ''openai'', lit ''azure_openai''] then
        generate_openai_response backend self system_prompt user_prompt use_json_format w
      else if prov = lit ''anthropic_vertex'' then
        generate_anthropic_response backend self system_prompt user_prompt w
      else (Inl (ValueError (lit ''Response generation not implemented for provider: '' @ prov)), w))"

text \<open>\<open>generate_response\<close> as the retry loop calls it, with the outcome logged.\<close>

definition logged_generate_response ::
  "(pystr \<Rightarrow> pystr) \<Rightarrow> 'e backend \<Rightarrow> llm_client \<Rightarrow> pystr \<Rightarrow> pystr \<Rightarrow> bool \<Rightarrow> 'e world
     \<Rightarrow> ('e exn + pystr) \<times> 'e world" where
  "logged_generate_response lower backend self system_prompt user_prompt use_json_format w =
     (let (r, w1) = generate_response lower backend self system_prompt user_prompt use_json_format w
      in (r, w1\<lparr>dispatch_log := dispatch_log w1 @ [r]\<rparr>))"

definition random_uniform :: "(nat \<Rightarrow> real) \<Rightarrow> 'e world \<Rightarrow> real \<times> 'e world" where
  "random_uniform jitter w = (jitter (draws w), w\<lparr>draws := Suc (draws w)\<rparr>)"

text \<open>
  \<open>time.sleep(delay)\<close> first converts the delay to its internal time, which raises
  \<open>OverflowError\<close> when the delay is beyond what the platform accepts (in either
  direction), then raises \<open>ValueError\<close> on a negative delay, and otherwise blocks.
\<close>

definition time_sleep :: "real \<Rightarrow> 'e world \<Rightarrow> 'e exn + 'e world" where
  "time_sleep delay w =
     (if sleep_limit w < \<bar>delay\<bar> then
        Inl (OverflowError (lit ''timestamp too large to convert to C _PyTime_t''))
      else if delay < 0 then Inl (ValueError (lit ''sleep length must be non-negative''))
      else Inr (w\<lparr>slept := slept w @ [delay]\<rparr>))"

text \<open>
  The delay expression \<open>min(max_delay, base_delay * 2**attempt) + random.uniform(0, 1)\<close>.
  Values are computed exactly, over the reals: the rounding of a float result is not
  modelled, which is why no statement below claims a strict upper bound that a sum
  rounded upwards could reach, and why a statement about the value of a delay takes an
  \<open>int\<close> operand to be one that converts to a float exactly. A product beyond the range
  of floats is infinite in Python and never below a finite \<open>max_delay\<close>, as here; a NaN
  cannot arise from finite numbers. What the expression raises is modelled:
  \<^item> \<open>2**attempt\<close> is an \<open>int\<close>; multiplying a \<open>float\<close> by it converts it to \<open>float\<close>,
    and the conversion of an \<open>int\<close> raises \<open>OverflowError\<close> when the \<open>int\<close> rounds to
    \<open>2**1024\<close> or more;
  \<^item> \<open>min(a, b)\<close> returns \<open>b\<close> exactly when \<open>b < a\<close>, so the result has the kind of the
    operand returned;
  \<^item> adding the drawn \<open>float\<close> to an \<open>int\<close> converts the \<open>int\<close> in the same way.
  \<open>None\<close> stands for the \<open>OverflowError\<close>.
\<close>

definition int_too_large_for_float :: "real \<Rightarrow> bool" where
  "int_too_large_for_float i \<longleftrightarrow> 2 ^ 1024 - 2 ^ 970 \<le> \<bar>i\<bar>"

definition capped_delay :: "processing_config \<Rightarrow> nat \<Rightarrow> real option" where
  "capped_delay pc attempt =
     (if base_delay_is_float pc \<and> int_too_large_for_float (2 ^ attempt) then None
      else Some (min (max_delay pc) (base_delay pc * 2 ^ attempt)))"

definition capped_is_float :: "processing_config \<Rightarrow> nat \<Rightarrow> bool" where
  "capped_is_float pc attempt =
     (if base_delay pc * 2 ^ attempt < max_delay pc then base_delay_is_float pc
      else max_delay_is_float pc)"

definition add_float :: "real \<Rightarrow> bool \<Rightarrow> real \<Rightarrow> real option" where
  "add_float c c_is_float j =
     (if \<not> c_is_float \<and> int_too_large_for_float c then None else Some (c + j))"

definition backoff_delay :: "processing_config \<Rightarrow> nat \<Rightarrow> real \<Rightarrow> real option" where
  "backoff_delay pc attempt j =
     (case capped_delay pc attempt of
        None \<Rightarrow> None
      | Some c \<Rightarrow> add_float c (capped_is_float pc attempt) j)"

text \<open>
  The handler of the retry loop after its test for the last attempt: the delay is
  computed (the left operand first, then the draw, then the sum), printed and slept. The
  result is the exception that leaves the handler, if any, and the state reached. The
  \<open>print\<close> has no effect on the state modelled here.
\<close>

definition backoff_sleep ::
  "(nat \<Rightarrow> real) \<Rightarrow> processing_config \<Rightarrow> nat \<Rightarrow> 'e world \<Rightarrow> 'e exn option \<times> 'e world" where
  "backoff_sleep jitter pc attempt w1 =
     (case capped_delay pc attempt of
        None \<Rightarrow> (Some (OverflowError (lit ''int too large to convert to float'')), w1)
      | Some c \<Rightarrow>
          (let (j, w2) = random_uniform jitter w1 in
           case add_float c (capped_is_float pc attempt) j of
             None \<Rightarrow> (Some (OverflowError (lit ''int too large to convert to float'')), w2)
           | Some delay \<Rightarrow>
               (case time_sleep delay w2 of
                  Inl e' \<Rightarrow> (Some e', w2)
                | Inr w3 \<Rightarrow> (None, w3))))"

text \<open>
  The loop of \<open>generate_with_retry\<close> over the remaining attempt numbers. Leaving the loop
  without a return reaches \<open>raise Exception("Max retries exceeded")\<close>.
\<close>

fun retry_attempts ::
  "(pystr \<Rightarrow> pystr) \<Rightarrow> 'e backend \<Rightarrow> (nat \<Rightarrow> real) \<Rightarrow> llm_client \<Rightarrow> pystr \<Rightarrow> pystr \<Rightarrow> bool
     \<Rightarrow> nat list \<Rightarrow> 'e world \<Rightarrow> ('e exn + pystr) \<times> 'e world" where
  "retry_attempts lower backend jitter self system_prompt user_prompt use_json_format [] w =
     (Inl (PyException (lit ''Max retries exceeded'')), w)"
| "retry_attempts lower backend jitter self system_prompt user_prompt use_json_format (attempt # rest) w =
     (case logged_generate_response lower backend self system_prompt user_prompt use_json_format w of
        (Inr text, w1) \<Rightarrow> (Inr text, w1)
      | (Inl e, w1) \<Rightarrow>
          if int attempt = max_retries (processing (self_config self)) - 1 then (Inl e, w1)
          else
            (case backoff_sleep jitter (processing (self_config self)) attempt w1 of
               (Some e', w2) \<Rightarrow> (Inl e', w2)
             | (None, w3) \<Rightarrow>
                 retry_attempts lower backend jitter self system_prompt user_prompt
                   use_json_format rest w3))"

definition generate_with_retry ::
  "(pystr \<Rightarrow> pystr) \<Rightarrow> 'e backend \<Rightarrow> (nat \<Rightarrow> real) \<Rightarrow> llm_client \<Rightarrow> pystr \<Rightarrow> pystr \<Rightarrow> bool
     \<Rightarrow> 'e world \<Rightarrow> ('e exn + pystr) \<times> 'e world" where
  "generate_with_retry lower backend jitter self system_prompt user_prompt use_json_format w =
     retry_attempts lower backend jitter self system_prompt user_prompt use_json_format
       [0..<nat (max_retries (processing (self_config self)))] w"

section \<open>Example inputs\<close>

text \<open>Concrete inputs on which the statements below are instantiated.\<close>

definition ex_spiqa :: pystr where
  "ex_spiqa = lit ''spiqa''"

definition ex_store :: store where
  "ex_store =
     [file_path ex_spiqa (lit ''A'') 1 \<mapsto>
        \<lparr>fsize = 21, ftext = Some (section_marker @ lit ''{Intro}'' @ [NL] @ lit ''body'' @ [NL])\<rparr>,
      file_path ex_spiqa (lit ''A'') 2 \<mapsto>
        \<lparr>fsize = 11, ftext = Some (lit ''Title'' @ [NL] @ lit ''body'' @ [NL])\<rparr>,
      file_path ex_spiqa (lit ''B'') 1 \<mapsto>
        \<lparr>fsize = 5, ftext = Some (lit ''a'' @ [NL, NL, NL] @ lit ''b'')\<rparr>,
      file_path ex_spiqa (lit ''D'') 2 \<mapsto>
        \<lparr>fsize = 12, ftext = Some (section_marker @ lit ''{X}'' @ [NL])\<rparr>,
      file_path ex_spiqa (lit ''D'') 3 \<mapsto>
        \<lparr>fsize = 6, ftext = Some (lit ''Hello'' @ [NL])\<rparr>]"

definition ex_processing :: processing_config where
  "ex_processing = \<lparr>min_file_size = 0, max_file_size = 1, max_content_length = 1000,
                     max_retries = 3, base_delay = 1, base_delay_is_float = False,
                     max_delay = 60, max_delay_is_float = False\<rparr>"

definition ex_llm :: llm_config where
  "ex_llm = \<lparr>provider = lit ''Anthropic_Vertex'', model = lit ''m1'', temperature = 0,
              max_tokens = 256, api_key = None, api_base = None, api_version = None,
              project_id = Some (lit ''p''), region = Some (lit ''r'')\<rparr>"

definition ex_config :: config where
  "ex_config = \<lparr>llm = ex_llm, data_spiqa_path = ex_spiqa, processing = ex_processing\<rparr>"

definition ex_self :: llm_client where
  "ex_self = \<lparr>self_config = ex_config, self_client = AnthropicVertex (lit ''p'') (lit ''r'')\<rparr>"

text \<open>The same client with two attempts and a base delay of a quarter of a second.\<close>

definition ex_self_quick :: llm_client where
  "ex_self_quick =
     \<lparr>self_config = \<lparr>llm = ex_llm, data_spiqa_path = ex_spiqa,
                      processing = \<lparr>min_file_size = 0, max_file_size = 1, max_content_length = 1000,
                                     max_retries = 2, base_delay = 1 / 4,
                                     base_delay_is_float = True, max_delay = 60,
                                     max_delay_is_float = False\<rparr>\<rparr>,
      self_client = AnthropicVertex (lit ''p'') (lit ''r'')\<rparr>"

text \<open>The same client with three attempts and a negative base delay.\<close>

definition ex_self_negative :: llm_client where
  "ex_self_negative =
     \<lparr>self_config = \<lparr>llm = ex_llm, data_spiqa_path = ex_spiqa,
                      processing = \<lparr>min_file_size = 0, max_file_size = 1, max_content_length = 1000,
                                     max_retries = 3, base_delay = - 5,
                                     base_delay_is_float = False, max_delay = 60,
                                     max_delay_is_float = False\<rparr>\<rparr>,
      self_client = AnthropicVertex (lit ''p'') (lit ''r'')\<rparr>"

text \<open>A processing section whose cap is reached at the fourth attempt.\<close>

definition ex_capped :: processing_config where
  "ex_capped = \<lparr>min_file_size = 0, max_file_size = 1, max_content_length = 1000,
                 max_retries = 5, base_delay = 1, base_delay_is_float = False,
                 max_delay = 4, max_delay_is_float = False\<rparr>"







text \<open>A provider whose call number \<open>k\<close> raises the error \<open>k\<close>, and one that always answers.\<close>

definition failing_backend :: "nat backend" where
  "failing_backend = (\<lambda>k c r. Inl k)"

definition answering_backend :: "nat backend" where
  "answering_backend = (\<lambda>k c r. Inr [lit ''ok''])"

text \<open>A source of draws that always yields three quarters.\<close>

definition ex_jitter :: "nat \<Rightarrow> real" where
  "ex_jitter k = 3 / 4"

definition ex_world :: "nat world" where
  "ex_world = \<lparr>wire_log = [], dispatch_log = [], slept = [], draws = 0,
                sleep_limit = 9223372036\<rparr>"

section \<open>Properties of the data loader\<close>

subsection \<open>Evaluation rules and loop lemmas\<close>

lemmas loader_eval =
  load_single_paper_def try_version_def file_path_def os_path_join_def lit_def str_nat.simps
  size_rejected_def section_marker_def readline_def py_strip_def is_space_def py_replace.simps
  sublist_Cons_right suffix_to_prefix Let_def ex_store_def ex_spiqa_def

lemma replace_nn_Nil: "py_replace [NL, NL] [NL] [] = []"
  by (subst py_replace.simps) simp

lemma replace_nn_single: "py_replace [NL, NL] [NL] [a] = [a]"
  by (subst py_replace.simps) (simp add: replace_nn_Nil)

lemma replace_nn_Cons2:
  "py_replace [NL, NL] [NL] (a # b # xs) =
     (if a = NL \<and> b = NL then NL # py_replace [NL, NL] [NL] xs
      else a # py_replace [NL, NL] [NL] (b # xs))"
  by (subst py_replace.simps) simp

lemma replace_nn_head:
  "prefix [NL] (py_replace [NL, NL] [NL] s) \<longleftrightarrow> prefix [NL] s"
proof (cases s)
  case Nil
  then show ?thesis by (simp add: replace_nn_Nil)
next
  case (Cons a s')
  then show ?thesis
    by (cases s') (auto simp: replace_nn_single replace_nn_Cons2)
qed

text \<open>
  One pass of the replacement halves every run of newlines, rounding up: the result still
  has two newlines in a row exactly when the text had three in a row.
\<close>

lemma replace_nn_double:
  "sublist [NL, NL] (py_replace [NL, NL] [NL] s) \<longleftrightarrow> sublist [NL, NL, NL] s"
proof (induction "[NL, NL] :: pystr" "[NL] :: pystr" s rule: py_replace.induct)
  case (1 s)
  show ?case
  proof (cases s)
    case Nil
    then show ?thesis by (simp add: replace_nn_Nil)
  next
    case (Cons a s')
    note sa = Cons
    show ?thesis
    proof (cases s')
      case Nil
      with sa show ?thesis by (simp add: replace_nn_single sublist_Cons_right)
    next
      case (Cons b xs)
      show ?thesis
      proof (cases "a = NL \<and> b = NL")
        case True
        with sa Cons have ih:
          "sublist [NL, NL] (py_replace [NL, NL] [NL] xs) \<longleftrightarrow> sublist [NL, NL, NL] xs"
          using "1"(1) by simp
        have h: "prefix [NL] (py_replace [NL, NL] [NL] xs) \<longleftrightarrow> prefix [NL] xs"
          by (rule replace_nn_head)
        have p: "prefix [NL, NL] xs \<Longrightarrow> prefix [NL] xs"
          by (auto simp: prefix_def)
        from True sa Cons ih h p show ?thesis
          by (auto simp: replace_nn_Cons2 sublist_Cons_right[of _ NL] prefix_Cons)
      next
        case False
        with sa Cons have ih:
          "sublist [NL, NL] (py_replace [NL, NL] [NL] (b # xs)) \<longleftrightarrow> sublist [NL, NL, NL] (b # xs)"
          using "1"(2) by simp
        have h: "prefix [NL] (py_replace [NL, NL] [NL] (b # xs)) \<longleftrightarrow> b = NL"
          by (simp add: replace_nn_head)
        from False sa Cons ih h show ?thesis
          by (auto simp: replace_nn_Cons2 sublist_Cons_right[of _ a] prefix_Cons)
      qed
    qed
  qed
qed

lemma try_version_Some_iff:
  "try_version st arxiv_id sp min_size max_size v = Some c \<longleftrightarrow>
     (\<exists>f t. st (file_path sp arxiv_id v) = Some f \<and>
            \<not> size_rejected min_size max_size (fsize f) \<and> ftext f = Some t \<and>
            \<not> sublist section_marker (py_strip (readline t)) \<and>
            c = py_replace [NL, NL] [NL] t)"
  by (auto simp: try_version_def Let_def split: option.splits)

lemma load_versions_append:
  "load_versions st arxiv_id sp min_size max_size (xs @ ys) =
     (case load_versions st arxiv_id sp min_size max_size xs of
        Some c \<Rightarrow> Some c
      | None \<Rightarrow> load_versions st arxiv_id sp min_size max_size ys)"
  by (induction xs) (auto split: option.splits)

lemma load_versions_None_iff:
  "load_versions st arxiv_id sp min_size max_size vs = None \<longleftrightarrow>
     (\<forall>v \<in> set vs. try_version st arxiv_id sp min_size max_size v = None)"
  by (induction vs) (auto split: option.splits)

lemma load_versions_Some:
  "load_versions st arxiv_id sp min_size max_size vs = Some c \<Longrightarrow>
     \<exists>v \<in> set vs. try_version st arxiv_id sp min_size max_size v = Some c"
  by (induction vs) (auto split: option.splits)

lemma versions_split:
  assumes "1 \<le> v" "v \<le> 14"
  shows "[1..<15] = [1..<v] @ v # [Suc v..<15]"
proof -
  have "[1..<15] = [1..<v] @ [v..<15]"
    using upt_add_eq_append[of 1 v "15 - v"] assms by simp
  also have "[v..<15] = v # [Suc v..<15]"
    using assms by (simp add: upt_conv_Cons)
  finally show ?thesis .
qed

text \<open>The contributing list is the candidates whose load gave a non-empty text, in order.\<close>

lemma collect_papers_valid:
  "snd (collect_papers st sp mn mx ids contents valid) =
     valid @ filter (\<lambda>(arxiv_id, title).
                \<exists>c. load_single_paper st arxiv_id sp mn mx = Some c \<and> c \<noteq> []) ids"
  by (induction ids arbitrary: contents valid) (auto split: option.splits)

subsection \<open>Selection invariant\<close>

text \<open>
  Claim C2. Whatever the candidates and the store, \<open>get_paper_content\<close> returns either
  \<open>(None, None)\<close> or a text together with a contributing list of at least two papers,
  the text no longer than \<open>max_content_length\<close>; and when the loop collected fewer
  than two papers, or a text longer than \<open>max_content_length\<close>, the result is
  \<open>(None, None)\<close>: there is no partial result.
\<close>

theorem selection_bounds:
  "(get_paper_content cfg st arxiv_ids = (None, None) \<or>
    (\<exists>contents valid. get_paper_content cfg st arxiv_ids = (Some contents, Some valid) \<and>
        2 \<le> length valid \<and> int (length contents) \<le> max_content_length (processing cfg))) \<and>
   (length (snd (collect_papers st (data_spiqa_path cfg) (min_file_size (processing cfg) * 1024)
                   (max_file_size (processing cfg) * 1024) arxiv_ids [] [])) < 2 \<or>
    int (length (fst (collect_papers st (data_spiqa_path cfg) (min_file_size (processing cfg) * 1024)
                   (max_file_size (processing cfg) * 1024) arxiv_ids [] [])))
      > max_content_length (processing cfg)
    \<longrightarrow> get_paper_content cfg st arxiv_ids = (None, None))"
  by (auto simp: get_paper_content_def Let_def split: prod.splits)

theorem selection_bounds_witness:
  "length (snd (collect_papers ex_store (data_spiqa_path ex_config)
       (min_file_size (processing ex_config) * 1024) (max_file_size (processing ex_config) * 1024)
       [(lit ''A'', lit ''T1''), (lit ''C'', lit ''T3'')] [] [])) < 2 \<and>
   get_paper_content ex_config ex_store [(lit ''A'', lit ''T1''), (lit ''C'', lit ''T3'')] = (None, None)"
proof -
  have h: "length (snd (collect_papers ex_store (data_spiqa_path ex_config)
       (min_file_size (processing ex_config) * 1024) (max_file_size (processing ex_config) * 1024)
       [(lit ''A'', lit ''T1''), (lit ''C'', lit ''T3'')] [] [])) < 2"
    by (simp add: ex_config_def ex_processing_def loader_eval upt_rec)
  with selection_bounds[of ex_config ex_store "[(lit ''A'', lit ''T1''), (lit ''C'', lit ''T3'')]"]
  show ?thesis by blast
qed

text \<open>
  The example of the specification: of three candidates the store holds usable text for
  the first two, and the selection succeeds with these two, in order.
\<close>

lemma selection_example:
  "get_paper_content ex_config ex_store
     [(lit ''A'', lit ''T1''), (lit ''B'', lit ''T2''), (lit ''C'', lit ''T3'')]
   = (Some (paper_block (lit ''T1'') (lit ''A'') (lit ''Title'' @ [NL] @ lit ''body'' @ [NL]) @
            paper_block (lit ''T2'') (lit ''B'') (lit ''a'' @ [NL, NL] @ lit ''b'')),
      Some [(lit ''A'', lit ''T1''), (lit ''B'', lit ''T2'')])"
  by (simp add: get_paper_content_def paper_block_def ex_config_def ex_processing_def
        loader_eval upt_rec)

subsection \<open>The size filter\<close>














subsection \<open>The first-line check\<close>

text \<open>
  Version 1 of candidate \<open>A\<close> in the example store exists, has a valid size and starts
  with the section marker, and yet the candidate yields the text of its version 2.
\<close>

theorem section_rejects_candidate_counterexample:
  "ex_store (file_path ex_spiqa (lit ''A'') 1) =
     Some \<lparr>fsize = 21, ftext = Some (section_marker @ lit ''{Intro}'' @ [NL] @ lit ''body'' @ [NL])\<rparr>
   \<and> \<not> size_rejected 0 1024 21
   \<and> sublist section_marker
       (py_strip (readline (section_marker @ lit ''{Intro}'' @ [NL] @ lit ''body'' @ [NL])))
   \<and> load_single_paper ex_store (lit ''A'') ex_spiqa 0 1024
       = Some (lit ''Title'' @ [NL] @ lit ''body'' @ [NL])"
  by (simp add: loader_eval upt_rec)

text \<open>
  Claim C4, as amended. If the first existing, size-valid version of a candidate's file has
  a first line containing the section marker, that version alone is skipped:
  \<open>_load_single_paper\<close> goes on with the later versions, and its result is the result of
  probing the versions after it, up to 14. The candidate yields no content only when none
  of these is accepted.
\<close>

theorem section_version_skipped_only:
  assumes "1 \<le> v" and "v \<le> 14"
    and "\<forall>j. 1 \<le> j \<and> j < v \<longrightarrow>
           (case st (file_path sp arxiv_id j) of
              None \<Rightarrow> True
            | Some g \<Rightarrow> size_rejected min_size max_size (fsize g))"
    and "st (file_path sp arxiv_id v) = Some f"
    and "\<not> size_rejected min_size max_size (fsize f)"
    and "ftext f = Some t"
    and "sublist section_marker (py_strip (readline t))"
  shows "try_version st arxiv_id sp min_size max_size v = None
       \<and> load_single_paper st arxiv_id sp min_size max_size =
           load_versions st arxiv_id sp min_size max_size [Suc v..<15]"
proof -
  have before: "load_versions st arxiv_id sp min_size max_size [1..<v] = None"
    unfolding load_versions_None_iff
  proof
    fix j assume "j \<in> set [1..<v]"
    then have "1 \<le> j \<and> j < v" by simp
    with assms(3) show "try_version st arxiv_id sp min_size max_size j = None"
      by (auto simp: try_version_def split: option.splits)
  qed
  have this_one: "try_version st arxiv_id sp min_size max_size v = None"
    using assms(4-7) by (simp add: try_version_def)
  have "load_single_paper st arxiv_id sp min_size max_size =
          load_versions st arxiv_id sp min_size max_size [Suc v..<15]"
    unfolding load_single_paper_def versions_split[OF assms(1,2)] load_versions_append
    using before this_one by simp
  with this_one show ?thesis by simp
qed

theorem section_version_skipped_only_witness:
  "ex_store (file_path ex_spiqa (lit ''D'') 1) = None
   \<and> ex_store (file_path ex_spiqa (lit ''D'') 2) =
       Some \<lparr>fsize = 12, ftext = Some (section_marker @ lit ''{X}'' @ [NL])\<rparr>
   \<and> \<not> size_rejected 0 1024 12
   \<and> sublist section_marker (py_strip (readline (section_marker @ lit ''{X}'' @ [NL])))
   \<and> try_version ex_store (lit ''D'') ex_spiqa 0 1024 2 = None
   \<and> load_single_paper ex_store (lit ''D'') ex_spiqa 0 1024 =
       load_versions ex_store (lit ''D'') ex_spiqa 0 1024 [Suc 2..<15]
   \<and> load_single_paper ex_store (lit ''D'') ex_spiqa 0 1024 = Some (lit ''Hello'' @ [NL])"
proof -
  have h0: "ex_store (file_path ex_spiqa (lit ''D'') 1) = None"
    by (simp add: loader_eval)
  have h1: "ex_store (file_path ex_spiqa (lit ''D'') 2) =
       Some \<lparr>fsize = 12, ftext = Some (section_marker @ lit ''{X}'' @ [NL])\<rparr>"
    by (simp add: loader_eval)
  have h2: "\<not> size_rejected 0 1024 (fsize \<lparr>fsize = 12, ftext = Some (section_marker @ lit ''{X}'' @ [NL])\<rparr>)"
    by (simp add: size_rejected_def)
  have h3: "ftext \<lparr>fsize = 12, ftext = Some (section_marker @ lit ''{X}'' @ [NL])\<rparr>
              = Some (section_marker @ lit ''{X}'' @ [NL])"
    by simp
  have h4: "sublist section_marker (py_strip (readline (section_marker @ lit ''{X}'' @ [NL])))"
    by (simp add: loader_eval)
  have h5: "\<forall>j. 1 \<le> j \<and> j < 2 \<longrightarrow>
           (case ex_store (file_path ex_spiqa (lit ''D'') j) of
              None \<Rightarrow> True
            | Some g \<Rightarrow> size_rejected 0 1024 (fsize g))"
  proof (intro allI impI)
    fix j :: nat
    assume "1 \<le> j \<and> j < 2"
    then have "j = 1" by arith
    with h0 show "case ex_store (file_path ex_spiqa (lit ''D'') j) of
              None \<Rightarrow> True
            | Some g \<Rightarrow> size_rejected 0 1024 (fsize g)"
      by simp
  qed
  have rest: "load_versions ex_store (lit ''D'') ex_spiqa 0 1024 [Suc 2..<15] = Some (lit ''Hello'' @ [NL])"
    by (simp add: loader_eval upt_rec)
  from section_version_skipped_only[OF _ _ h5 h1 h2 h3 h4]
    h0 h1 h4 rest
  show ?thesis by (simp add: size_rejected_def)
qed



subsection \<open>Newline normalisation\<close>

text \<open>
  The only version of candidate \<open>B\<close> in the example store holds three newlines in a row;
  the text returned for it still holds two in a row.
\<close>

theorem no_double_newline_counterexample:
  "ex_store (file_path ex_spiqa (lit ''B'') 1) =
     Some \<lparr>fsize = 5, ftext = Some (lit ''a'' @ [NL, NL, NL] @ lit ''b'')\<rparr>
   \<and> load_single_paper ex_store (lit ''B'') ex_spiqa 0 1024 = Some (lit ''a'' @ [NL, NL] @ lit ''b'')
   \<and> sublist [NL, NL] (lit ''a'' @ [NL, NL] @ lit ''b'')"
  by (simp add: loader_eval upt_rec)

text \<open>
  Claim C5, as amended. Every text returned by \<open>_load_single_paper\<close> is the text of one of
  the versions 1 to 14 of the candidate's file after a single left-to-right pass that
  replaces each non-overlapping pair of newlines by one newline. The returned content
  contains two consecutive newlines exactly when the stored text contained three
  consecutive newlines; so it contains none when the stored text has no run of three or
  more.
\<close>

theorem loaded_text_single_pass:
  assumes "load_single_paper st arxiv_id sp min_size max_size = Some c"
  shows "\<exists>v f t. 1 \<le> v \<and> v \<le> 14 \<and> st (file_path sp arxiv_id v) = Some f \<and> ftext f = Some t \<and>
           c = py_replace [NL, NL] [NL] t \<and>
           (sublist [NL, NL] c \<longleftrightarrow> sublist [NL, NL, NL] t)"
proof -
  from assms obtain v where v: "v \<in> set [1..<15]"
      and tv: "try_version st arxiv_id sp min_size max_size v = Some c"
    unfolding load_single_paper_def by (blast dest: load_versions_Some)
  from tv obtain f t where "st (file_path sp arxiv_id v) = Some f" "ftext f = Some t"
      "c = py_replace [NL, NL] [NL] t"
    unfolding try_version_Some_iff by blast
  moreover from v have "1 \<le> v \<and> v \<le> 14" by simp
  ultimately show ?thesis using replace_nn_double by blast
qed

theorem loaded_text_single_pass_witness:
  "load_single_paper ex_store (lit ''A'') ex_spiqa 0 1024 = Some (lit ''Title'' @ [NL] @ lit ''body'' @ [NL])
   \<and> (\<exists>v f t. 1 \<le> v \<and> v \<le> 14 \<and> ex_store (file_path ex_spiqa (lit ''A'') v) = Some f \<and>
         ftext f = Some t \<and>
         lit ''Title'' @ [NL] @ lit ''body'' @ [NL] = py_replace [NL, NL] [NL] t \<and>
         (sublist [NL, NL] (lit ''Title'' @ [NL] @ lit ''body'' @ [NL]) \<longleftrightarrow> sublist [NL, NL, NL] t))"
proof -
  have h: "load_single_paper ex_store (lit ''A'') ex_spiqa 0 1024
             = Some (lit ''Title'' @ [NL] @ lit ''body'' @ [NL])"
    by (simp add: loader_eval upt_rec)
  from loaded_text_single_pass[OF h] h show ?thesis by blast
qed

section \<open>Properties of the client\<close>

subsection \<open>Evaluation rules and loop lemmas\<close>

lemmas client_eval =
  generate_with_retry_def logged_generate_response_def generate_response_def
  generate_anthropic_response_def generate_openai_response_def wire_call_def first_item_def
  backoff_sleep_def random_uniform_def time_sleep_def backoff_delay_def capped_delay_def
  capped_is_float_def add_float_def int_too_large_for_float_def ascii_lower_def lit_def Let_def
  ex_self_def ex_self_quick_def ex_self_negative_def ex_config_def ex_llm_def ex_processing_def
  failing_backend_def answering_backend_def ex_jitter_def ex_world_def

lemma generate_response_world:
  assumes "generate_response lower backend self sp up js w = (r, w1)"
  shows "dispatch_log w1 = dispatch_log w \<and> slept w1 = slept w \<and> draws w1 = draws w \<and>
         sleep_limit w1 = sleep_limit w \<and>
         (\<exists>cs. wire_log w1 = wire_log w @ cs \<and> length cs \<le> 1)"
  using assms
  by (auto simp: generate_response_def generate_openai_response_def generate_anthropic_response_def
        wire_call_def Let_def split: if_splits)

lemma logged_generate_response_world:
  assumes "logged_generate_response lower backend self sp up js w = (r, w1)"
  shows "dispatch_log w1 = dispatch_log w @ [r] \<and> slept w1 = slept w \<and> draws w1 = draws w \<and>
         sleep_limit w1 = sleep_limit w \<and>
         (\<exists>cs. wire_log w1 = wire_log w @ cs \<and> length cs \<le> 1)"
proof -
  obtain r0 w0 where g: "generate_response lower backend self sp up js w = (r0, w0)"
    by (cases "generate_response lower backend self sp up js w")
  with assms have "r = r0" and "w1 = w0\<lparr>dispatch_log := dispatch_log w0 @ [r0]\<rparr>"
    by (auto simp: logged_generate_response_def)
  with generate_response_world[OF g] show ?thesis by simp
qed

lemma upt_step: "a < n \<Longrightarrow> [a..<n] = a # [Suc a..<n]"
  by (simp add: upt_conv_Cons)

text \<open>The value of the delay expression, when it raises nothing.\<close>

lemma backoff_delay_value:
  "backoff_delay pc a j = Some d \<Longrightarrow> d = min (max_delay pc) (base_delay pc * 2 ^ a) + j"
  by (auto simp: backoff_delay_def capped_delay_def add_float_def split: option.splits if_splits)

text \<open>
  With a \<open>float\<close> base delay the expression raises \<open>OverflowError\<close> from attempt 1024
  on, whatever the values: \<open>2**1024\<close> is too large for a \<open>float\<close>.
\<close>

lemma float_base_overflows:
  assumes "base_delay_is_float pc" and "1024 \<le> attempt"
  shows "capped_delay pc attempt = None" and "backoff_delay pc attempt j = None"
proof -
  have "(2::real) ^ 1024 \<le> 2 ^ attempt"
    using assms(2) by (intro power_increasing) simp_all
  moreover have "(0::real) \<le> 2 ^ 970" by simp
  ultimately have "int_too_large_for_float (2 ^ attempt)"
    unfolding int_too_large_for_float_def by linarith
  with assms(1) show "capped_delay pc attempt = None"
    by (simp add: capped_delay_def)
  then show "backoff_delay pc attempt j = None"
    by (simp add: backoff_delay_def)
qed

text \<open>
  The handler changes neither the logs nor the platform limit; it sleeps exactly when it
  raises nothing, and then for the delay that the expression gives for the next draw.
\<close>

lemma backoff_sleep_world:
  assumes "backoff_sleep jitter pc a w1 = (res, w2)"
  shows "dispatch_log w2 = dispatch_log w1 \<and> wire_log w2 = wire_log w1 \<and>
         sleep_limit w2 = sleep_limit w1 \<and>
         (case res of
            Some e \<Rightarrow> slept w2 = slept w1
          | None \<Rightarrow>
              draws w2 = Suc (draws w1) \<and>
              (\<exists>d. backoff_delay pc a (jitter (draws w1)) = Some d \<and> slept w2 = slept w1 @ [d]))"
  using assms
  by (auto simp: backoff_sleep_def backoff_delay_def random_uniform_def time_sleep_def Let_def
        split: option.splits if_splits)

lemma backoff_sleep_ok:
  assumes "backoff_delay pc a (jitter (draws w1)) = Some d" and "0 \<le> d" and "d \<le> sleep_limit w1"
  shows "backoff_sleep jitter pc a w1 = (None, w1\<lparr>draws := Suc (draws w1), slept := slept w1 @ [d]\<rparr>)"
  using assms
  by (auto simp: backoff_sleep_def backoff_delay_def random_uniform_def time_sleep_def Let_def
        split: option.splits if_splits)

text \<open>
  Whatever the provider does, the loop from attempt \<open>a\<close> makes at most one dispatch for
  each remaining attempt, and the delays it sleeps are the backoff delays of the attempts
  \<open>a, a + 1, \<dots>\<close>, fewer than the number of remaining attempts.
\<close>

lemma retry_trace:
  assumes n: "n = nat (max_retries (processing (self_config self)))"
  shows "retry_attempts lower backend jitter self sp up js [a..<n] w = (r, w') \<Longrightarrow>
         \<exists>os ds. dispatch_log w' = dispatch_log w @ os \<and> length os \<le> n - a \<and>
           length ds \<le> n - a - 1 \<and> sleep_limit w' = sleep_limit w \<and>
           slept w' = slept w @ ds \<and>
           (\<forall>i<length ds. backoff_delay (processing (self_config self)) (a + i)
                              (jitter (draws w + i)) = Some (ds ! i))"
proof (induction "n - a" arbitrary: a w)
  case 0
  then have "[a..<n] = []" by simp
  with "0.prems" have "w' = w" by simp
  then show ?case by (intro exI[of _ "[]"]) simp
next
  case (Suc m)
  then have an: "a < n" by simp
  let ?pc = "processing (self_config self)"
  obtain r1 w1 where l: "logged_generate_response lower backend self sp up js w = (r1, w1)"
    by (cases "logged_generate_response lower backend self sp up js w")
  note w1 = logged_generate_response_world[OF l]
  obtain res w2 where b: "backoff_sleep jitter ?pc a w1 = (res, w2)"
    by (cases "backoff_sleep jitter ?pc a w1")
  note w2 = backoff_sleep_world[OF b]
  have stop: "\<And>u. dispatch_log u = dispatch_log w1 \<Longrightarrow> sleep_limit u = sleep_limit w1 \<Longrightarrow>
      slept u = slept w1 \<Longrightarrow> w' = u \<Longrightarrow> ?case"
  proof -
    fix u assume "dispatch_log u = dispatch_log w1" "sleep_limit u = sleep_limit w1"
      "slept u = slept w1" "w' = u"
    with w1 an show ?case
      by (intro exI[of _ "[r1]"] exI[of _ "[]"]) simp
  qed
  consider (ok) t where "r1 = Inr t"
    | (final) e where "r1 = Inl e" "int a = max_retries ?pc - 1"
    | (raised) e e' where "r1 = Inl e" "int a \<noteq> max_retries ?pc - 1" "res = Some e'"
    | (again) e where "r1 = Inl e" "int a \<noteq> max_retries ?pc - 1" "res = None"
    by (cases r1; cases res) auto
  then show ?case
  proof cases
    case ok
    with Suc.prems l an have "w' = w1" by (simp add: upt_step)
    then show ?thesis by (intro stop[of w1]) simp_all
  next
    case final
    with Suc.prems l an have "w' = w1" by (simp add: upt_step)
    then show ?thesis by (intro stop[of w1]) simp_all
  next
    case raised
    with Suc.prems l b an have "w' = w2" by (simp add: upt_step)
    with w2 raised show ?thesis by (intro stop[of w2]) simp_all
  next
    case again
    with n an have lt: "Suc a < n" by linarith
    from again Suc.prems l b an
    have rec: "retry_attempts lower backend jitter self sp up js [Suc a..<n] w2 = (r, w')"
      by (simp add: upt_step)
    from w2 again obtain d where
      d: "backoff_delay ?pc a (jitter (draws w1)) = Some d" "slept w2 = slept w1 @ [d]"
        "draws w2 = Suc (draws w1)"
      by auto
    from Suc.hyps(2) have m: "m = n - Suc a" by simp
    from Suc.hyps(1)[OF m rec] obtain os ds where
      ih: "dispatch_log w' = dispatch_log w2 @ os" "length os \<le> n - Suc a"
        "length ds \<le> n - Suc a - 1" "sleep_limit w' = sleep_limit w2"
        "slept w' = slept w2 @ ds"
        "\<forall>i<length ds. backoff_delay ?pc (Suc a + i) (jitter (draws w2 + i)) = Some (ds ! i)"
      by blast
    have "dispatch_log w' = dispatch_log w @ (r1 # os)" using ih(1) w1 w2 by simp
    moreover have "length (r1 # os) \<le> n - a" using ih(2) lt by simp
    moreover have "length (d # ds) \<le> n - a - 1" using ih(3) lt by simp
    moreover have "sleep_limit w' = sleep_limit w" using ih(4) w1 w2 by simp
    moreover have "slept w' = slept w @ (d # ds)" using ih(5) d(2) w1 by simp
    moreover have "\<forall>i<length (d # ds). backoff_delay ?pc (a + i) (jitter (draws w + i))
                      = Some ((d # ds) ! i)"
    proof (intro allI impI)
      fix i assume i: "i < length (d # ds)"
      show "backoff_delay ?pc (a + i) (jitter (draws w + i)) = Some ((d # ds) ! i)"
      proof (cases i)
        case 0
        with d(1) w1 show ?thesis by simp
      next
        case (Suc i')
        with i ih(6) d(3) w1 show ?thesis by simp
      qed
    qed
    ultimately show ?thesis by blast
  qed
qed

text \<open>
  When every dispatch that the loop makes from attempt \<open>a\<close> on fails and every handler
  before the last attempt raises nothing, the loop makes one dispatch for each remaining
  attempt and ends with the error of the last one.
\<close>

lemma retry_all_fail:
  assumes n: "n = nat (max_retries (processing (self_config self)))"
  shows "retry_attempts lower backend jitter self sp up js [a..<n] w = (r, w') \<Longrightarrow> a < n \<Longrightarrow>
         dispatch_log w' = dispatch_log w @ os \<Longrightarrow> list_all isl os \<Longrightarrow>
         (\<forall>i. int (a + i) < max_retries (processing (self_config self)) - 1 \<longrightarrow>
            (\<exists>d. backoff_delay (processing (self_config self)) (a + i) (jitter (draws w + i)) = Some d \<and>
                 0 \<le> d \<and> d \<le> sleep_limit w)) \<Longrightarrow>
         length os = n - a \<and> r = last os"
proof (induction "n - a" arbitrary: a w os)
  case 0
  then show ?case by simp
next
  case (Suc m)
  let ?pc = "processing (self_config self)"
  note an = Suc.prems(2)
  obtain r1 w1 where l: "logged_generate_response lower backend self sp up js w = (r1, w1)"
    by (cases "logged_generate_response lower backend self sp up js w")
  note w1 = logged_generate_response_world[OF l]
  show ?case
  proof (cases r1)
    case (Inr t)
    with Suc.prems(1) l an have "w' = w1" by (simp add: upt_step)
    with w1 Suc.prems(3) have "os = [r1]" by simp
    with Inr Suc.prems(4) show ?thesis by simp
  next
    case (Inl e)
    show ?thesis
    proof (cases "int a = max_retries ?pc - 1")
      case True
      with Suc.prems(1) l an Inl have "w' = w1" "r = Inl e" by (simp_all add: upt_step)
      with w1 Suc.prems(3) have "os = [r1]" by simp
      moreover from True n an have "n - a = 1" by linarith
      ultimately show ?thesis using Inl \<open>r = Inl e\<close> by simp
    next
      case False
      with n an have lt: "Suc a < n" by linarith
      with n have "int (a + 0) < max_retries ?pc - 1" by linarith
      from Suc.prems(5)[rule_format, OF this] obtain d where
        d0: "backoff_delay ?pc (a + 0) (jitter (draws w + 0)) = Some d \<and> 0 \<le> d \<and> d \<le> sleep_limit w"
        by blast
      then have d: "backoff_delay ?pc a (jitter (draws w)) = Some d" "0 \<le> d" "d \<le> sleep_limit w"
        by simp_all
      let ?w3 = "w1\<lparr>draws := Suc (draws w1), slept := slept w1 @ [d]\<rparr>"
      have b: "backoff_sleep jitter ?pc a w1 = (None, ?w3)"
        using d w1 by (intro backoff_sleep_ok) simp_all
      with Suc.prems(1) l an Inl False
      have rec: "retry_attempts lower backend jitter self sp up js [Suc a..<n] ?w3 = (r, w')"
        by (simp add: upt_step)
      from retry_trace[OF n rec] obtain os' where
        os': "dispatch_log w' = dispatch_log ?w3 @ os'"
        by blast
      with w1 Suc.prems(3) have os: "os = r1 # os'" by simp
      with Suc.prems(4) have all: "list_all isl os'" by simp
      have later: "\<forall>i. int (Suc a + i) < max_retries ?pc - 1 \<longrightarrow>
            (\<exists>d. backoff_delay ?pc (Suc a + i) (jitter (draws ?w3 + i)) = Some d \<and>
                 0 \<le> d \<and> d \<le> sleep_limit ?w3)"
      proof (intro allI impI)
        fix i assume "int (Suc a + i) < max_retries ?pc - 1"
        then have "int (a + Suc i) < max_retries ?pc - 1" by simp
        with Suc.prems(5) obtain d' where
          "backoff_delay ?pc (a + Suc i) (jitter (draws w + Suc i)) = Some d'" "0 \<le> d'"
          "d' \<le> sleep_limit w"
          by blast
        with w1 show "\<exists>d. backoff_delay ?pc (Suc a + i) (jitter (draws ?w3 + i)) = Some d \<and>
                 0 \<le> d \<and> d \<le> sleep_limit ?w3"
          by simp
      qed
      from Suc.hyps(2) have m: "m = n - Suc a" by simp
      from Suc.hyps(1)[OF m rec lt os' all later]
      have "length os' = n - Suc a" "r = last os'" by simp_all
      moreover from \<open>length os' = n - Suc a\<close> lt have "os' \<noteq> []" by auto
      ultimately show ?thesis using os lt by simp
    qed
  qed
qed

lemma backoff_sum_bound:
  assumes nonneg: "0 \<le> base_delay pc" "0 \<le> max_delay pc"
    and jit: "\<forall>k. jitter k < 1"
    and k: "length ds \<le> m"
    and ds: "\<forall>i<length ds. backoff_delay pc (a + i) (jitter (d + i)) = Some (ds ! i)"
  shows "sum_list ds \<le> (\<Sum>i<m. min (max_delay pc) (base_delay pc * 2 ^ (a + i)) + 1)"
proof -
  have "sum_list ds = (\<Sum>i<length ds. ds ! i)"
    by (simp add: sum_list_sum_nth atLeast0LessThan)
  also have "\<dots> \<le> (\<Sum>i<length ds. min (max_delay pc) (base_delay pc * 2 ^ (a + i)) + 1)"
  proof (rule sum_mono)
    fix i assume "i \<in> {..<length ds}"
    with ds have "backoff_delay pc (a + i) (jitter (d + i)) = Some (ds ! i)" by simp
    then have "ds ! i = min (max_delay pc) (base_delay pc * 2 ^ (a + i)) + jitter (d + i)"
      by (rule backoff_delay_value)
    moreover have "jitter (d + i) < 1" using jit by simp
    ultimately show "ds ! i \<le> min (max_delay pc) (base_delay pc * 2 ^ (a + i)) + 1"
      by simp
  qed
  also have "\<dots> \<le> (\<Sum>i<m. min (max_delay pc) (base_delay pc * 2 ^ (a + i)) + 1)"
  proof (rule sum_mono2)
    show "finite {..<m}" by simp
    show "{..<length ds} \<subseteq> {..<m}" using k by auto
    fix b
    have "0 \<le> min (max_delay pc) (base_delay pc * 2 ^ (a + b))" using nonneg by simp
    then show "0 \<le> min (max_delay pc) (base_delay pc * 2 ^ (a + b)) + 1" by simp
  qed
  finally show ?thesis .
qed

text \<open>The run of the example client against the failing provider, evaluated.\<close>

lemma retry_example:
  "generate_with_retry ascii_lower failing_backend ex_jitter ex_self (lit ''s'') (lit ''u'') False ex_world
   = (Inl (ProviderError 2),
      \<lparr>wire_log = replicate 3 (AnthropicVertex (lit ''p'') (lit ''r''),
                    MessagesCreate (lit ''m1'') 256 (lit ''s'') [(lit ''user'', lit ''u'')] 0),
       dispatch_log = [Inl (ProviderError 0), Inl (ProviderError 1), Inl (ProviderError 2)],
       slept = [7 / 4, 11 / 4], draws = 2, sleep_limit = 9223372036\<rparr>)"
  by (simp add: client_eval upt_rec numeral_3_eq_3)

subsection \<open>Exhausting the retries\<close>

text \<open>
  With three attempts and \<open>base_delay = -5\<close>, the first failure of the provider leads to
  the delay \<open>min(60, -5) + 0.75 = -4.25\<close>, \<open>time.sleep\<close> raises \<open>ValueError\<close>, and the call
  ends after one dispatch with that \<open>ValueError\<close> and not with the provider's exception.
\<close>

theorem retry_exhausted_counterexample:
  "1 \<le> max_retries (processing (self_config ex_self_negative))
   \<and> nat (max_retries (processing (self_config ex_self_negative))) = 3
   \<and> backoff_delay (processing (self_config ex_self_negative)) 0 (ex_jitter 0) = Some (- 17 / 4)
   \<and> generate_with_retry ascii_lower failing_backend ex_jitter ex_self_negative
        (lit ''s'') (lit ''u'') False ex_world
      = (Inl (ValueError (lit ''sleep length must be non-negative'')),
         \<lparr>wire_log = [(AnthropicVertex (lit ''p'') (lit ''r''),
                       MessagesCreate (lit ''m1'') 256 (lit ''s'') [(lit ''user'', lit ''u'')] 0)],
          dispatch_log = [Inl (ProviderError 0)],
          slept = [], draws = 1, sleep_limit = 9223372036\<rparr>)"
  by (simp add: client_eval upt_rec numeral_3_eq_3)

text \<open>
  Claim C1, as amended. For \<open>max_retries = n\<close> with \<open>n \<ge> 1\<close> and a call in which every
  dispatch made raises, and in which every backoff before the last attempt completes
  (the delay expression raises nothing and its value is non-negative and within what
  \<open>time.sleep\<close> accepts), \<open>generate_with_retry\<close> invokes \<open>generate_response\<close> exactly \<open>n\<close>
  times and raises the very exception of the last invocation, not a wrapper.
\<close>

theorem retry_exhausted:
  assumes "generate_with_retry lower backend jitter self sp up js w = (r, w')"
    and "1 \<le> max_retries (processing (self_config self))"
    and "dispatch_log w' = dispatch_log w @ os"
    and "list_all isl os"
    and "\<forall>a. int a < max_retries (processing (self_config self)) - 1 \<longrightarrow>
           (\<exists>d. backoff_delay (processing (self_config self)) a (jitter (draws w + a)) = Some d \<and>
                0 \<le> d \<and> d \<le> sleep_limit w)"
  shows "length os = nat (max_retries (processing (self_config self))) \<and> r = last os \<and> isl r"
proof -
  let ?n = "nat (max_retries (processing (self_config self)))"
  from assms(1) have run: "retry_attempts lower backend jitter self sp up js [0..<?n] w = (r, w')"
    by (simp add: generate_with_retry_def)
  have pos: "0 < ?n" using assms(2) by simp
  have ok: "\<forall>i. int (0 + i) < max_retries (processing (self_config self)) - 1 \<longrightarrow>
           (\<exists>d. backoff_delay (processing (self_config self)) (0 + i) (jitter (draws w + i)) = Some d \<and>
                0 \<le> d \<and> d \<le> sleep_limit w)"
    using assms(5) by simp
  from retry_all_fail[OF refl run pos assms(3) assms(4) ok]
  have res: "length os = ?n" "r = last os" by simp_all
  with pos have "os \<noteq> []" by auto
  then have "last os \<in> set os" by simp
  with assms(4) have "isl (last os)" by (simp add: list_all_iff)
  with res show ?thesis by simp
qed

theorem retry_exhausted_witness:
  "1 \<le> max_retries (processing (self_config ex_self))
   \<and> backoff_delay (processing (self_config ex_self)) 0 (ex_jitter 0) = Some (7 / 4)
   \<and> backoff_delay (processing (self_config ex_self)) 1 (ex_jitter 1) = Some (11 / 4)
   \<and> 11 / 4 \<le> sleep_limit ex_world
   \<and> dispatch_log (snd (generate_with_retry ascii_lower failing_backend ex_jitter ex_self
                          (lit ''s'') (lit ''u'') False ex_world))
       = [Inl (ProviderError 0), Inl (ProviderError 1), Inl (ProviderError 2)]
   \<and> length [Inl (ProviderError 0), Inl (ProviderError 1), Inl (ProviderError 2) :: nat exn + pystr]
       = nat (max_retries (processing (self_config ex_self)))
   \<and> fst (generate_with_retry ascii_lower failing_backend ex_jitter ex_self
             (lit ''s'') (lit ''u'') False ex_world)
       = last [Inl (ProviderError 0), Inl (ProviderError 1), Inl (ProviderError 2)]"
proof -
  let ?w' = "\<lparr>wire_log = replicate 3 (AnthropicVertex (lit ''p'') (lit ''r''),
                    MessagesCreate (lit ''m1'') 256 (lit ''s'') [(lit ''user'', lit ''u'')] 0),
       dispatch_log = [Inl (ProviderError 0), Inl (ProviderError 1), Inl (ProviderError 2)],
       slept = [7 / 4, 11 / 4], draws = 2, sleep_limit = 9223372036\<rparr> :: nat world"
  let ?os = "[Inl (ProviderError 0), Inl (ProviderError 1), Inl (ProviderError 2)] :: (nat exn + pystr) list"
  have h1: "1 \<le> max_retries (processing (self_config ex_self))"
    by (simp add: ex_self_def ex_config_def ex_processing_def)
  have h3: "dispatch_log ?w' = dispatch_log ex_world @ ?os"
    by (simp add: ex_world_def)
  have h4: "list_all isl ?os" by simp
  have b0: "backoff_delay (processing (self_config ex_self)) 0 (ex_jitter k) = Some (7 / 4)" for k
    by (simp add: client_eval)
  have b1: "backoff_delay (processing (self_config ex_self)) 1 (ex_jitter k) = Some (11 / 4)" for k
    by (simp add: client_eval)
  have lim: "11 / 4 \<le> sleep_limit ex_world" by (simp add: ex_world_def)
  have h5: "\<forall>a. int a < max_retries (processing (self_config ex_self)) - 1 \<longrightarrow>
           (\<exists>d. backoff_delay (processing (self_config ex_self)) a (ex_jitter (draws ex_world + a)) = Some d \<and>
                0 \<le> d \<and> d \<le> sleep_limit ex_world)"
  proof (intro allI impI)
    fix a :: nat
    assume "int a < max_retries (processing (self_config ex_self)) - 1"
    then have "a = 0 \<or> a = 1"
      by (simp add: ex_self_def ex_config_def ex_processing_def) arith
    then show "\<exists>d. backoff_delay (processing (self_config ex_self)) a
            (ex_jitter (draws ex_world + a)) = Some d \<and> 0 \<le> d \<and> d \<le> sleep_limit ex_world"
    proof
      assume "a = 0"
      moreover have "backoff_delay (processing (self_config ex_self)) 0
            (ex_jitter (draws ex_world + 0)) = Some (7 / 4) \<and> (0::real) \<le> 7 / 4
            \<and> 7 / 4 \<le> sleep_limit ex_world"
        using b0 by (simp add: ex_world_def)
      ultimately show ?thesis by blast
    next
      assume "a = 1"
      moreover have "backoff_delay (processing (self_config ex_self)) 1
            (ex_jitter (draws ex_world + 1)) = Some (11 / 4) \<and> (0::real) \<le> 11 / 4
            \<and> 11 / 4 \<le> sleep_limit ex_world"
        using b1 by (simp add: ex_world_def)
      ultimately show ?thesis by blast
    qed
  qed
  from retry_exhausted[OF retry_example h1 h3 h4 h5] retry_example h1 b0 b1 lim
  show ?thesis by simp
qed

subsection \<open>The backoff delay\<close>

text \<open>
  With \<open>base_delay = 1\<close>, \<open>max_delay = 4\<close> and \<open>max_retries = 5\<close>, attempt 3 is not the last
  one, and a draw of one half gives the delay 4.5, which is below \<open>base_delay * 2^3 = 8\<close>.
\<close>

theorem backoff_interval_counterexample:
  "int 3 < max_retries ex_capped - 1 \<and> (0::real) \<le> 1 / 2 \<and> (1 / 2 :: real) < 1
   \<and> backoff_delay ex_capped 3 (1 / 2) = Some (9 / 2)
   \<and> \<not> (base_delay ex_capped * 2 ^ 3 \<le> (9 / 2 :: real))"
  by (simp add: ex_capped_def backoff_delay_def capped_delay_def capped_is_float_def add_float_def
        int_too_large_for_float_def)

text \<open>
  Claim C3, as amended. For every attempt index and every drawn value \<open>j\<close> in \<open>[0, 1)\<close>,
  the backoff delay, when its computation raises nothing and the capped delay is a float
  or an \<open>int\<close> of magnitude at most \<open>2^53\<close> (which converts to a float exactly), lies in
  the closed interval from \<open>min(max_delay, base_delay * 2^attempt)\<close> to that value plus
  1; it never exceeds \<open>base_delay * 2^attempt + 1\<close> nor \<open>max_delay + 1\<close>; and it is at
  least \<open>base_delay * 2^attempt\<close> when \<open>base_delay * 2^attempt \<le> max_delay\<close>, that is,
  when the cap is not reached. In a call of \<open>generate_with_retry\<close> the delays slept are,
  in order, the backoff delays computed at the attempts \<open>0, 1, \<dots>\<close>, all of them before
  the last attempt. The upper ends are closed because the sum is a float that may be
  rounded up to the bound.
\<close>

theorem backoff_delay_bounds:
  assumes "0 \<le> j" and "j < 1"
    and "backoff_delay pc attempt j = Some d"
    and "capped_is_float pc attempt \<or> \<bar>min (max_delay pc) (base_delay pc * 2 ^ attempt)\<bar> \<le> 2 ^ 53"
    and "generate_with_retry lower backend jitter self sp up js w = (r, w')"
  shows "(min (max_delay pc) (base_delay pc * 2 ^ attempt) \<le> d
          \<and> d \<le> min (max_delay pc) (base_delay pc * 2 ^ attempt) + 1
          \<and> d \<le> base_delay pc * 2 ^ attempt + 1
          \<and> d \<le> max_delay pc + 1
          \<and> (base_delay pc * 2 ^ attempt \<le> max_delay pc \<longrightarrow> base_delay pc * 2 ^ attempt \<le> d))
       \<and> (\<exists>ds. slept w' = slept w @ ds
             \<and> length ds \<le> nat (max_retries (processing (self_config self))) - 1
             \<and> (\<forall>i<length ds.
                   backoff_delay (processing (self_config self)) i (jitter (draws w + i))
                     = Some (ds ! i)))"
proof
  from assms(3) have "d = min (max_delay pc) (base_delay pc * 2 ^ attempt) + j"
    by (rule backoff_delay_value)
  with assms(1,2)
  show "min (max_delay pc) (base_delay pc * 2 ^ attempt) \<le> d
          \<and> d \<le> min (max_delay pc) (base_delay pc * 2 ^ attempt) + 1
          \<and> d \<le> base_delay pc * 2 ^ attempt + 1
          \<and> d \<le> max_delay pc + 1
          \<and> (base_delay pc * 2 ^ attempt \<le> max_delay pc \<longrightarrow> base_delay pc * 2 ^ attempt \<le> d)"
    by (simp add: min_def)
next
  let ?pc = "processing (self_config self)"
  let ?n = "nat (max_retries ?pc)"
  from assms(5) have "retry_attempts lower backend jitter self sp up js [0..<?n] w = (r, w')"
    by (simp add: generate_with_retry_def)
  from retry_trace[OF refl this] obtain ds where
    "length ds \<le> ?n - 1" "slept w' = slept w @ ds"
    "\<forall>i<length ds. backoff_delay ?pc (0 + i) (jitter (draws w + i)) = Some (ds ! i)"
    by auto
  then show "\<exists>ds. slept w' = slept w @ ds
             \<and> length ds \<le> nat (max_retries (processing (self_config self))) - 1
             \<and> (\<forall>i<length ds.
                   backoff_delay (processing (self_config self)) i (jitter (draws w + i))
                     = Some (ds ! i))"
    by auto
qed

theorem backoff_delay_bounds_witness:
  "(0::real) \<le> 1 / 2 \<and> (1 / 2 :: real) < 1
   \<and> backoff_delay ex_capped 2 (1 / 2) = Some (9 / 2)
   \<and> \<bar>min (max_delay ex_capped) (base_delay ex_capped * 2 ^ 2)\<bar> \<le> 2 ^ 53
   \<and> base_delay ex_capped * 2 ^ 2 \<le> max_delay ex_capped
   \<and> base_delay ex_capped * 2 ^ 2 \<le> (9 / 2 :: real)
   \<and> (9 / 2 :: real) \<le> base_delay ex_capped * 2 ^ 2 + 1
   \<and> (9 / 2 :: real) \<le> max_delay ex_capped + 1
   \<and> slept (snd (generate_with_retry ascii_lower failing_backend ex_jitter ex_self
                    (lit ''s'') (lit ''u'') False ex_world)) = [7 / 4, 11 / 4]"
proof -
  have h1: "(0::real) \<le> 1 / 2" by simp
  have h2: "(1 / 2 :: real) < 1" by simp
  have h3: "backoff_delay ex_capped 2 (1 / 2) = Some (9 / 2)"
    by (simp add: ex_capped_def backoff_delay_def capped_delay_def capped_is_float_def add_float_def
          int_too_large_for_float_def)
  have h4: "\<bar>min (max_delay ex_capped) (base_delay ex_capped * 2 ^ 2)\<bar> \<le> 2 ^ 53"
    by (simp add: ex_capped_def)
  have cap: "base_delay ex_capped * 2 ^ 2 \<le> max_delay ex_capped"
    by (simp add: ex_capped_def)
  from backoff_delay_bounds[OF h1 h2 h3 disjI2[OF h4] retry_example] h1 h2 h3 h4 cap retry_example
  show ?thesis by simp
qed

subsection \<open>Bounds of one logical request\<close>

text \<open>
  With two attempts, \<open>base_delay\<close> a quarter of a second and every draw three quarters,
  the failing provider makes the client sleep for 1 second, while the sum of
  \<open>min(max_delay, base_delay * 2^i)\<close> over \<open>i = 0, 1\<close> is three quarters of a second.
\<close>

theorem blocking_time_counterexample:
  "max_retries (processing (self_config ex_self_quick)) = 2
   \<and> (0::real) \<le> ex_jitter 0 \<and> ex_jitter 0 < 1
   \<and> slept (snd (generate_with_retry ascii_lower failing_backend ex_jitter ex_self_quick
                    (lit ''s'') (lit ''u'') False ex_world)) = [1]
   \<and> min (max_delay (processing (self_config ex_self_quick)))
         (base_delay (processing (self_config ex_self_quick)) * 2 ^ 0)
     + min (max_delay (processing (self_config ex_self_quick)))
         (base_delay (processing (self_config ex_self_quick)) * 2 ^ 1) = 3 / 4
   \<and> \<not> (sum_list (slept (snd (generate_with_retry ascii_lower failing_backend ex_jitter ex_self_quick
                    (lit ''s'') (lit ''u'') False ex_world)))
         \<le> min (max_delay (processing (self_config ex_self_quick)))
               (base_delay (processing (self_config ex_self_quick)) * 2 ^ 0)
           + min (max_delay (processing (self_config ex_self_quick)))
               (base_delay (processing (self_config ex_self_quick)) * 2 ^ 1))"
  by (simp add: client_eval upt_rec numeral_2_eq_2)

text \<open>
  Claim C7, as amended. For every configuration with non-negative \<open>base_delay\<close> and
  \<open>max_delay\<close> and every sequence of drawn values in \<open>[0, 1)\<close>, one call of
  \<open>generate_with_retry\<close> makes at most \<open>max_retries\<close> dispatch calls, and the total time
  it sleeps is bounded above by the sum over \<open>i\<close> in \<open>[0, max_retries - 1)\<close> of
  \<open>min(max_delay, base_delay * 2^i) + 1\<close>: there is no sleep after the last attempt, and
  each sleep adds its drawn value to the capped delay.
\<close>

theorem retry_bounded:
  assumes "0 \<le> base_delay (processing (self_config self))"
    and "0 \<le> max_delay (processing (self_config self))"
    and "\<forall>k. 0 \<le> jitter k \<and> jitter k < 1"
    and "generate_with_retry lower backend jitter self sp up js w = (r, w')"
  shows "\<exists>os ds. dispatch_log w' = dispatch_log w @ os \<and>
           length os \<le> nat (max_retries (processing (self_config self))) \<and>
           slept w' = slept w @ ds \<and>
           sum_list ds \<le> (\<Sum>i<nat (max_retries (processing (self_config self))) - 1.
                             min (max_delay (processing (self_config self)))
                                 (base_delay (processing (self_config self)) * 2 ^ i) + 1)"
proof -
  let ?pc = "processing (self_config self)"
  let ?n = "nat (max_retries ?pc)"
  from assms(4) have "retry_attempts lower backend jitter self sp up js [0..<?n] w = (r, w')"
    by (simp add: generate_with_retry_def)
  from retry_trace[OF refl this] obtain os ds where
    t: "dispatch_log w' = dispatch_log w @ os" "length os \<le> ?n" "length ds \<le> ?n - 1"
       "slept w' = slept w @ ds"
       "\<forall>i<length ds. backoff_delay ?pc (0 + i) (jitter (draws w + i)) = Some (ds ! i)"
    by auto
  have jit: "\<forall>k. jitter k < 1" using assms(3) by simp
  have "sum_list ds \<le> (\<Sum>i<?n - 1. min (max_delay ?pc) (base_delay ?pc * 2 ^ (0 + i)) + 1)"
    by (rule backoff_sum_bound[OF assms(1) assms(2) jit t(3) t(5)])
  with t show ?thesis by auto
qed

theorem retry_bounded_witness:
  "0 \<le> base_delay (processing (self_config ex_self_quick))
   \<and> 0 \<le> max_delay (processing (self_config ex_self_quick))
   \<and> (0::real) \<le> ex_jitter 0 \<and> ex_jitter 0 < 1
   \<and> length (dispatch_log (snd (generate_with_retry ascii_lower failing_backend ex_jitter ex_self_quick
                  (lit ''s'') (lit ''u'') False ex_world)))
       \<le> nat (max_retries (processing (self_config ex_self_quick)))
   \<and> sum_list (slept (snd (generate_with_retry ascii_lower failing_backend ex_jitter ex_self_quick
                  (lit ''s'') (lit ''u'') False ex_world)))
       \<le> (\<Sum>i<nat (max_retries (processing (self_config ex_self_quick))) - 1.
             min (max_delay (processing (self_config ex_self_quick)))
                 (base_delay (processing (self_config ex_self_quick)) * 2 ^ i) + 1)"
proof -
  have h1: "0 \<le> base_delay (processing (self_config ex_self_quick))"
    by (simp add: ex_self_quick_def)
  have h2: "0 \<le> max_delay (processing (self_config ex_self_quick))"
    by (simp add: ex_self_quick_def)
  have h3: "\<forall>k. 0 \<le> ex_jitter k \<and> ex_jitter k < 1"
    by (simp add: ex_jitter_def)
  have h4: "generate_with_retry ascii_lower failing_backend ex_jitter ex_self_quick
              (lit ''s'') (lit ''u'') False ex_world
            = (fst (generate_with_retry ascii_lower failing_backend ex_jitter ex_self_quick
                      (lit ''s'') (lit ''u'') False ex_world),
               snd (generate_with_retry ascii_lower failing_backend ex_jitter ex_self_quick
                      (lit ''s'') (lit ''u'') False ex_world))"
    by simp
  from retry_bounded[OF h1 h2 h3 h4] h1 h2 h3
  show ?thesis by (auto simp: ex_world_def)
qed

subsection \<open>Dispatch by provider\<close>

lemma anthropic_not_openai:
  "lit ''anthropic_vertex'' \<noteq> lit ''openai''" "lit ''anthropic_vertex'' \<noteq> lit ''azure_openai''"
  by (simp_all add: lit_def)

text \<open>
  Claim C9. For the \<open>anthropic_vertex\<close> variant, \<open>generate_response\<close> with the JSON flag
  set does exactly what it does with the flag unset: the same outcome and the same state
  afterwards, hence the same wire call, which is the \<open>messages.create\<close> call without any
  trace of the flag. The flag cannot make the call fail.
\<close>

theorem json_flag_ignored:
  assumes "lower (provider (llm (self_config self))) = lit ''anthropic_vertex''"
  shows "generate_response lower backend self sp up True w
           = generate_response lower backend self sp up False w
       \<and> generate_response lower backend self sp up True w
           = generate_anthropic_response backend self sp up w
       \<and> wire_log (snd (generate_response lower backend self sp up True w))
           = wire_log w @
             [(self_client self,
               MessagesCreate (model (llm (self_config self))) (max_tokens (llm (self_config self)))
                 sp [(lit ''user'', up)] (temperature (llm (self_config self))))]"
  using assms anthropic_not_openai
  by (simp add: generate_response_def generate_anthropic_response_def wire_call_def)

theorem json_flag_ignored_witness:
  "ascii_lower (provider (llm (self_config ex_self))) = lit ''anthropic_vertex''
   \<and> generate_response ascii_lower answering_backend ex_self (lit ''s'') (lit ''u'') True ex_world
       = generate_response ascii_lower answering_backend ex_self (lit ''s'') (lit ''u'') False ex_world
   \<and> fst (generate_response ascii_lower answering_backend ex_self (lit ''s'') (lit ''u'') True ex_world)
       = Inr (lit ''ok'')"
proof -
  have h: "ascii_lower (provider (llm (self_config ex_self))) = lit ''anthropic_vertex''"
    by (simp add: ex_self_def ex_config_def ex_llm_def ascii_lower_def lit_def)
  have v: "fst (generate_anthropic_response answering_backend ex_self (lit ''s'') (lit ''u'') ex_world)
             = Inr (lit ''ok'')"
    by (simp add: generate_anthropic_response_def wire_call_def first_item_def
          answering_backend_def)
  note flag = json_flag_ignored[where lower = ascii_lower and self = ex_self
      and backend = answering_backend and sp = "lit ''s''" and up = "lit ''u''" and w = ex_world, OF h]
  from flag have e1:
    "generate_response ascii_lower answering_backend ex_self (lit ''s'') (lit ''u'') True ex_world
       = generate_response ascii_lower answering_backend ex_self (lit ''s'') (lit ''u'') False ex_world"
    by (rule conjunct1)
  from flag have e2:
    "generate_response ascii_lower answering_backend ex_self (lit ''s'') (lit ''u'') True ex_world
       = generate_anthropic_response answering_backend ex_self (lit ''s'') (lit ''u'') ex_world"
    by blast
  have "fst (generate_response ascii_lower answering_backend ex_self (lit ''s'') (lit ''u'') True ex_world)
          = Inr (lit ''ok'')"
    unfolding e2 by (rule v)
  with h e1 show ?thesis by blast
qed

text \<open>
  Claim C10. If the construction of the client succeeds and the object keeps the
  configuration it was built from, then every call of \<open>generate_response\<close> takes exactly
  one of the two provider-specific paths, makes exactly one wire call through the
  constructed client, and never raises the \<open>ValueError\<close> of the last branch.
\<close>

theorem constructed_client_dispatches:
  fixes backend :: "'e backend" and w :: "'e world"
  assumes "llm_client_init lower cfg = (Inr self :: 'e exn + llm_client)"
  shows "self_config self = cfg
       \<and> ((lower (provider (llm cfg)) \<in> set [lit ''openai'', lit ''azure_openai'']
            \<and> generate_response lower backend self sp up js w
                = generate_openai_response backend self sp up js w)
          \<or> (lower (provider (llm cfg)) \<notin> set [lit ''openai'', lit ''azure_openai'']
            \<and> lower (provider (llm cfg)) = lit ''anthropic_vertex''
            \<and> generate_response lower backend self sp up js w
                = generate_anthropic_response backend self sp up w))
       \<and> (\<forall>m. fst (generate_response lower backend self sp up js w) \<noteq> Inl (ValueError m))
       \<and> (\<exists>q. wire_log (snd (generate_response lower backend self sp up js w))
                = wire_log w @ [(self_client self, q)])"
proof -
  from assms have cfg: "self_config self = cfg"
    by (auto simp: llm_client_init_def split: sum.splits)
  from assms have tag: "lower (provider (llm cfg)) = lit ''openai''
      \<or> lower (provider (llm cfg)) = lit ''azure_openai''
      \<or> lower (provider (llm cfg)) = lit ''anthropic_vertex''"
    by (auto simp: llm_client_init_def initialize_client_def Let_def
          split: sum.splits if_splits)
  have novalue: "\<And>x m. first_item x \<noteq> (Inl (ValueError m) :: 'e exn + pystr)"
    by (auto simp: first_item_def split: sum.splits list.splits)
  from tag consider
      (openai) "lower (provider (llm cfg)) \<in> set [lit ''openai'', lit ''azure_openai'']"
    | (anthropic) "lower (provider (llm cfg)) = lit ''anthropic_vertex''"
    by auto
  then show ?thesis
  proof cases
    case openai
    with cfg novalue show ?thesis
      by (simp add: generate_response_def generate_openai_response_def wire_call_def Let_def)
  next
    case anthropic
    with cfg novalue anthropic_not_openai show ?thesis
      by (simp add: generate_response_def generate_anthropic_response_def wire_call_def)
  qed
qed

theorem constructed_client_dispatches_witness:
  "llm_client_init ascii_lower ex_config = (Inr ex_self :: nat exn + llm_client)
   \<and> self_config ex_self = ex_config
   \<and> generate_response ascii_lower answering_backend ex_self (lit ''s'') (lit ''u'') False ex_world
       = generate_anthropic_response answering_backend ex_self (lit ''s'') (lit ''u'') ex_world
   \<and> fst (generate_response ascii_lower answering_backend ex_self (lit ''s'') (lit ''u'') False ex_world)
       \<noteq> Inl (ValueError (lit ''Response generation not implemented for provider: anthropic_vertex''))"
proof -
  have h: "llm_client_init ascii_lower ex_config = (Inr ex_self :: nat exn + llm_client)"
    by (simp add: llm_client_init_def initialize_client_def ex_self_def ex_config_def ex_llm_def
          ascii_lower_def lit_def)
  have t: "ascii_lower (provider (llm ex_config)) \<notin> set [lit ''openai'', lit ''azure_openai'']"
    by (simp add: ex_config_def ex_llm_def ascii_lower_def lit_def)
  from constructed_client_dispatches[OF h, of answering_backend "lit ''s''" "lit ''u''" False ex_world]
    h t
  show ?thesis by blast
qed

end
